theory Spec2Isabelle
  imports Complex_Main
begin

section \<open>Hotel management: the data model of HotelManagement.py\<close>

text \<open>
  The enumerations of the source. The string values of the Python enums are not used by
  any operation, so the members alone are kept.
\<close>

datatype RoomType = SINGLE | DOUBLE | DELUXE | SUITE

datatype RoomStatus = AVAILABLE | BOOKED | OCCUPIED

datatype ReservationStatus = CONFIRMED | CANCELLED

text \<open>Every exception the source raises is a \<^verbatim>\<open>ValueError\<close> carrying its message.\<close>

datatype error = ValueError string

text \<open>
  A date is its day number (\<^verbatim>\<open>date.toordinal()\<close>); the source only subtracts two
  dates and reads \<^verbatim>\<open>.days\<close> of the difference, which is the difference of the day
  numbers. The source names \<^verbatim>\<open>date\<close> in its annotations and never imports it;
  it is taken to be \<^verbatim>\<open>datetime.date\<close>.
\<close>

type_synonym date = int

text \<open>
  Class \<^verbatim>\<open>Room\<close>. The locks (one for each room, one for each reservation, one
  for the system) are left out: every operation below is run to its end before the next
  one starts, the three kinds of lock are distinct objects, and a \<^verbatim>\<open>with\<close> block
  releases its lock on every exit, the raising ones included. The price is a Python
  float; it is modelled as a real number, and no theorem below depends on rounding.
\<close>

record Room =
  id :: string
  type :: RoomType
  price :: real
  status :: RoomStatus

record Guest =
  guest_id :: string
  name :: string
  email :: string
  phone_number :: string

text \<open>
  Room objects are shared: a reservation holds a reference to its room, and the room's
  status is changed through that reference. Rooms therefore live in a store indexed by
  reference, and a reservation keeps the reference.
\<close>

type_synonym room_ref = nat

record Reservation =
  id :: string
  guest :: Guest
  room :: room_ref
  check_in_date :: date
  check_out_date :: date
  status :: ReservationStatus

text \<open>
  Class \<^verbatim>\<open>Payment\<close> has the single abstract method \<^verbatim>\<open>process_payment(amount) -> bool\<close>.
  A payment object is modelled by what it answers, as a function of the amounts it was
  asked to process before and of the amount asked now, together with the list of the
  amounts processed so far. The list records that the method has been invoked.
\<close>

record Payment =
  outcome :: "real list \<Rightarrow> real \<Rightarrow> bool"
  calls :: "real list"

definition process_payment :: "Payment \<Rightarrow> real \<Rightarrow> bool \<times> Payment" where
  "process_payment p amount = (outcome p (calls p) amount, p\<lparr>calls := calls p @ [amount]\<rparr>)"

definition CreditCardPayment :: Payment where
  "CreditCardPayment = \<lparr>outcome = (\<lambda>_ _. True), calls = []\<rparr>"

definition CashPayment :: Payment where
  "CashPayment = \<lparr>outcome = (\<lambda>_ _. True), calls = []\<rparr>"

text \<open>
  The state: the store of Room objects and the three dictionaries of the
  \<^verbatim>\<open>HotelManagementSystem\<close> singleton. A Reservation object is reached by the
  operations only through the \<^verbatim>\<open>reservations\<close> dictionary, under one key, so it is
  kept there by value; changing its status updates the entry.
\<close>

record state =
  room_objs :: "room_ref \<Rightarrow> Room"
  guests :: "string \<rightharpoonup> Guest"
  rooms :: "string \<rightharpoonup> room_ref"
  reservations :: "string \<rightharpoonup> Reservation"

section \<open>Room: the status transitions\<close>

definition Room_init :: "string \<Rightarrow> RoomType \<Rightarrow> real \<Rightarrow> Room" where
  "Room_init i t p = \<lparr>Room.id = i, type = t, price = p, status = AVAILABLE\<rparr>"

definition Room_book :: "Room \<Rightarrow> error + Room" where
  "Room_book r =
     (if Room.status r = AVAILABLE then Inr (r\<lparr>Room.status := BOOKED\<rparr>)
      else Inl (ValueError ''Room is not available for booking.''))"

definition Room_check_in :: "Room \<Rightarrow> error + Room" where
  "Room_check_in r =
     (if Room.status r = BOOKED then Inr (r\<lparr>Room.status := OCCUPIED\<rparr>)
      else Inl (ValueError ''Room is not booked.''))"

definition Room_check_out :: "Room \<Rightarrow> error + Room" where
  "Room_check_out r =
     (if Room.status r = OCCUPIED then Inr (r\<lparr>Room.status := AVAILABLE\<rparr>)
      else Inl (ValueError ''Room is not occupied.''))"

section \<open>Reservation\<close>

text \<open>The constructor stores its arguments and sets the status; it checks nothing.\<close>

definition Reservation_init ::
  "string \<Rightarrow> Guest \<Rightarrow> room_ref \<Rightarrow> date \<Rightarrow> date \<Rightarrow> Reservation" where
  "Reservation_init i g r ci co =
     \<lparr>Reservation.id = i, guest = g, room = r, check_in_date = ci, check_out_date = co,
      status = CONFIRMED\<rparr>"

text \<open>
  \<^verbatim>\<open>Reservation.cancel\<close> assigns \<^verbatim>\<open>CANCELLED\<close> before it calls the room's
  \<^verbatim>\<open>check_out\<close>, so the new status stays when that call raises. The result is the
  outcome, the reservation afterwards and the room store afterwards.
\<close>

definition Reservation_cancel ::
  "Reservation \<Rightarrow> (room_ref \<Rightarrow> Room) \<Rightarrow> (error + unit) \<times> Reservation \<times> (room_ref \<Rightarrow> Room)" where
  "Reservation_cancel res objs =
     (if Reservation.status res = CONFIRMED then
        (let res' = res\<lparr>Reservation.status := CANCELLED\<rparr> in
         case Room_check_out (objs (room res)) of
           Inl e \<Rightarrow> (Inl e, res', objs)
         | Inr r' \<Rightarrow> (Inr (), res', objs(room res := r')))
      else (Inl (ValueError ''Reservation is not confirmed.''), res, objs))"

section \<open>HotelManagementSystem\<close>

definition HotelManagementSystem_new :: "(room_ref \<Rightarrow> Room) \<Rightarrow> state" where
  "HotelManagementSystem_new objs =
     \<lparr>room_objs = objs, guests = Map.empty, rooms = Map.empty, reservations = Map.empty\<rparr>"

definition add_guest :: "Guest \<Rightarrow> state \<Rightarrow> state" where
  "add_guest g s = s\<lparr>guests := (guests s)(guest_id g \<mapsto> g)\<rparr>"

definition get_guest :: "string \<Rightarrow> state \<Rightarrow> Guest option" where
  "get_guest gid s = guests s gid"

definition add_room :: "room_ref \<Rightarrow> state \<Rightarrow> state" where
  "add_room r s = s\<lparr>rooms := (rooms s)(Room.id (room_objs s r) \<mapsto> r)\<rparr>"

definition get_room :: "string \<Rightarrow> state \<Rightarrow> room_ref option" where
  "get_room rid s = rooms s rid"

text \<open>
  \<^verbatim>\<open>_generate_reservation_id\<close> draws a random UUID. The draw is an input of the
  model: the argument is \<^verbatim>\<open>uuid.uuid4().hex\<close>, a string of hexadecimal digits in
  lower case, on which \<^verbatim>\<open>upper()\<close> changes the six letters only.
\<close>

definition upper_hex :: "char \<Rightarrow> char" where
  "upper_hex c =
     (if c = CHR ''a'' then CHR ''A'' else if c = CHR ''b'' then CHR ''B''
      else if c = CHR ''c'' then CHR ''C'' else if c = CHR ''d'' then CHR ''D''
      else if c = CHR ''e'' then CHR ''E'' else if c = CHR ''f'' then CHR ''F'' else c)"

definition generate_reservation_id :: "string \<Rightarrow> string" where
  "generate_reservation_id uuid_hex = ''RES'' @ map upper_hex (take 8 uuid_hex)"

text \<open>
  \<^verbatim>\<open>book_room\<close> returns the new reservation, or \<^verbatim>\<open>None\<close> when the room is not
  available. \<^verbatim>\<open>Room.book\<close> checks the status again; its raising branch is kept.
\<close>

definition book_room ::
  "Guest \<Rightarrow> room_ref \<Rightarrow> date \<Rightarrow> date \<Rightarrow> string \<Rightarrow> state \<Rightarrow> (error + Reservation option) \<times> state" where
  "book_room g r ci co uuid_hex s =
     (if Room.status (room_objs s r) = AVAILABLE then
        (case Room_book (room_objs s r) of
           Inl e \<Rightarrow> (Inl e, s)
         | Inr r' \<Rightarrow>
             (let reservation_id = generate_reservation_id uuid_hex;
                  reservation = Reservation_init reservation_id g r ci co
              in (Inr (Some reservation),
                  s\<lparr>room_objs := (room_objs s)(r := r'),
                    reservations := (reservations s)(reservation_id \<mapsto> reservation)\<rparr>)))
      else (Inr None, s))"

text \<open>
  \<^verbatim>\<open>cancel_reservation\<close> does nothing and returns when the identity is not in the
  dictionary. When \<^verbatim>\<open>reservation.cancel()\<close> raises, the \<^verbatim>\<open>del\<close> is not reached:
  the reservation stays in the dictionary, with the status \<^verbatim>\<open>cancel\<close> left it.
\<close>

definition cancel_reservation :: "string \<Rightarrow> state \<Rightarrow> (error + unit) \<times> state" where
  "cancel_reservation reservation_id s =
     (case reservations s reservation_id of
        None \<Rightarrow> (Inr (), s)
      | Some reservation \<Rightarrow>
          (case Reservation_cancel reservation (room_objs s) of
             (Inl e, res', objs') \<Rightarrow>
               (Inl e, s\<lparr>room_objs := objs',
                         reservations := (reservations s)(reservation_id \<mapsto> res')\<rparr>)
           | (Inr u, res', objs') \<Rightarrow>
               (Inr (), s\<lparr>room_objs := objs',
                          reservations := (reservations s)(reservation_id := None)\<rparr>)))"

definition check_in :: "string \<Rightarrow> state \<Rightarrow> (error + unit) \<times> state" where
  "check_in reservation_id s =
     (case reservations s reservation_id of
        None \<Rightarrow> (Inl (ValueError ''Invalid reservation or reservation not confirmed.''), s)
      | Some reservation \<Rightarrow>
          (if Reservation.status reservation = CONFIRMED then
             (case Room_check_in (room_objs s (room reservation)) of
                Inl e \<Rightarrow> (Inl e, s)
              | Inr r' \<Rightarrow> (Inr (), s\<lparr>room_objs := (room_objs s)(room reservation := r')\<rparr>))
           else (Inl (ValueError ''Invalid reservation or reservation not confirmed.''), s)))"

text \<open>
  \<^verbatim>\<open>check_out\<close> asks for the payment before it touches the room. The payment object
  is returned with the state, so that a call of \<^verbatim>\<open>process_payment\<close> shows.
\<close>

definition check_out :: "string \<Rightarrow> Payment \<Rightarrow> state \<Rightarrow> (error + unit) \<times> state \<times> Payment" where
  "check_out reservation_id payment s =
     (case reservations s reservation_id of
        None \<Rightarrow> (Inl (ValueError ''Invalid reservation or reservation not confirmed.''), s, payment)
      | Some reservation \<Rightarrow>
          (if Reservation.status reservation = CONFIRMED then
             (let r = room reservation;
                  nights = check_out_date reservation - check_in_date reservation;
                  amount = price (room_objs s r) * real_of_int nights
              in case process_payment payment amount of
                   (True, payment') \<Rightarrow>
                     (case Room_check_out (room_objs s r) of
                        Inl e \<Rightarrow> (Inl e, s, payment')
                      | Inr r' \<Rightarrow>
                          (Inr (), s\<lparr>room_objs := (room_objs s)(r := r'),
                                     reservations := (reservations s)(reservation_id := None)\<rparr>,
                           payment'))
                 | (False, payment') \<Rightarrow> (Inl (ValueError ''Payment failed.''), s, payment'))
           else (Inl (ValueError ''Invalid reservation or reservation not confirmed.''), s, payment)))"

section \<open>Sequences of calls and reachable states\<close>

text \<open>
  A call of the system, with its arguments. For \<^verbatim>\<open>BookRoom\<close> the last argument is
  the UUID drawn by the call.
\<close>

datatype operation =
    AddGuest Guest
  | AddRoom room_ref
  | BookRoom Guest room_ref date date string
  | CheckIn string
  | CheckOut string Payment
  | CancelReservation string

text \<open>The state a call leaves behind, whether it returned or raised.\<close>

fun step :: "operation \<Rightarrow> state \<Rightarrow> state" where
  "step (AddGuest g) s = add_guest g s"
| "step (AddRoom r) s = add_room r s"
| "step (BookRoom g r ci co uuid_hex) s = snd (book_room g r ci co uuid_hex s)"
| "step (CheckIn rid) s = snd (check_in rid s)"
| "step (CheckOut rid payment) s = fst (snd (check_out rid payment s))"
| "step (CancelReservation rid) s = snd (cancel_reservation rid s)"

text \<open>
  At the start every Room object has the status its constructor gives it and the three
  dictionaries are empty, as \<^verbatim>\<open>__new__\<close> leaves them.
\<close>

definition initial :: "state \<Rightarrow> bool" where
  "initial s \<longleftrightarrow>
     (\<forall>r. Room.status (room_objs s r) = AVAILABLE) \<and>
     guests s = Map.empty \<and> rooms s = Map.empty \<and> reservations s = Map.empty"

inductive reachable :: "state \<Rightarrow> bool" where
  reach_initial: "initial s \<Longrightarrow> reachable s"
| reach_step: "reachable s \<Longrightarrow> reachable (step op s)"

text \<open>
  The reservations of a state are the entries of the \<^verbatim>\<open>reservations\<close> dictionary: a
  reservation deleted from it is no longer reachable from the system.
  \<open>confirmed_in s rid r\<close>: the dictionary holds, under \<open>rid\<close>, a confirmed reservation
  of room \<open>r\<close>.
\<close>

definition confirmed_in :: "state \<Rightarrow> string \<Rightarrow> room_ref \<Rightarrow> bool" where
  "confirmed_in s rid r \<longleftrightarrow>
     (case reservations s rid of
        None \<Rightarrow> False
      | Some res \<Rightarrow> Reservation.status res = CONFIRMED \<and> room res = r)"

definition confirmed_for :: "state \<Rightarrow> room_ref \<Rightarrow> string set" where
  "confirmed_for s r = {rid. confirmed_in s rid r}"

text \<open>
  The invariant behind the uniqueness of confirmed reservations: a room with a confirmed
  reservation is not available, and no room has two of them.
\<close>

definition hotel_inv :: "state \<Rightarrow> bool" where
  "hotel_inv s \<longleftrightarrow>
     (\<forall>rid r. confirmed_in s rid r \<longrightarrow> Room.status (room_objs s r) \<noteq> AVAILABLE) \<and>
     (\<forall>rid1 rid2 r. confirmed_in s rid1 r \<and> confirmed_in s rid2 r \<longrightarrow> rid1 = rid2)"

section \<open>A small hotel for the examples\<close>

definition alice :: Guest where
  "alice = \<lparr>guest_id = ''G1'', name = ''Alice'', email = ''alice@example.org'',
            phone_number = ''555-0100''\<rparr>"

definition demo_rooms :: "room_ref \<Rightarrow> Room" where
  "demo_rooms = (\<lambda>_. Room_init ''101'' SINGLE 100)"

definition hotel0 :: state where
  "hotel0 = HotelManagementSystem_new demo_rooms"

definition demo_uuid :: string where
  "demo_uuid = ''4f7a1c2e9b0d4c6fa1b2c3d4e5f60718''"

text \<open>A payment object that declines every amount.\<close>

definition DecliningPayment :: Payment where
  "DecliningPayment = \<lparr>outcome = (\<lambda>_ _. False), calls = []\<rparr>"

text \<open>Room 0 booked by Alice for day 10 to day 12, and then checked in.\<close>

definition hotel_booked :: state where
  "hotel_booked = step (BookRoom alice 0 10 12 demo_uuid) hotel0"

definition hotel_occupied :: state where
  "hotel_occupied = step (CheckIn ''RES4F7A1C2E'') hotel_booked"

text \<open>The booking of room 0 cancelled before any check-in.\<close>

definition hotel_cancelled_early :: state where
  "hotel_cancelled_early = step (CancelReservation ''RES4F7A1C2E'') hotel_booked"

text \<open>
  The amount \<^verbatim>\<open>check_out\<close> asks the payment for: the room's price times the number
  of nights of the reservation.
\<close>

abbreviation amount_due :: "state \<Rightarrow> Reservation \<Rightarrow> real" where
  "amount_due s res \<equiv>
     price (room_objs s (room res)) * real_of_int (check_out_date res - check_in_date res)"

section \<open>What each call does to the state\<close>

lemma book_room_available:
  "Room.status (room_objs s r) = AVAILABLE \<Longrightarrow>
   book_room g r ci co u s =
     (Inr (Some (Reservation_init (generate_reservation_id u) g r ci co)),
      s\<lparr>room_objs := (room_objs s)(r := (room_objs s r)\<lparr>Room.status := BOOKED\<rparr>),
        reservations := (reservations s)(generate_reservation_id u \<mapsto>
          Reservation_init (generate_reservation_id u) g r ci co)\<rparr>)"
  by (simp add: book_room_def Room_book_def Let_def)

lemma book_room_busy:
  "Room.status (room_objs s r) \<noteq> AVAILABLE \<Longrightarrow> book_room g r ci co u s = (Inr None, s)"
  by (simp add: book_room_def)

lemma check_in_returns:
  "check_in rid s = (Inr (), s') \<Longrightarrow>
   \<exists>res. reservations s rid = Some res \<and> Reservation.status res = CONFIRMED \<and>
      Room.status (room_objs s (room res)) = BOOKED \<and>
      s' = s\<lparr>room_objs :=
                (room_objs s)(room res := (room_objs s (room res))\<lparr>Room.status := OCCUPIED\<rparr>)\<rparr>"
  by (auto simp: check_in_def Room_check_in_def split: option.splits if_splits)

lemma check_in_raises: "check_in rid s = (Inl e, s') \<Longrightarrow> s' = s"
  by (auto simp: check_in_def Room_check_in_def split: option.splits if_splits)

lemma check_out_state:
  "fst (snd (check_out rid p s)) = s \<or>
   (\<exists>res. reservations s rid = Some res \<and> Reservation.status res = CONFIRMED \<and>
      Room.status (room_objs s (room res)) = OCCUPIED \<and>
      fst (snd (check_out rid p s)) =
        s\<lparr>room_objs :=
            (room_objs s)(room res := (room_objs s (room res))\<lparr>Room.status := AVAILABLE\<rparr>),
          reservations := (reservations s)(rid := None)\<rparr>)"
proof (cases "reservations s rid")
  case None
  then show ?thesis by (simp add: check_out_def)
next
  case (Some res)
  then show ?thesis
    by (cases "Reservation.status res = CONFIRMED")
       (auto simp: check_out_def process_payment_def Room_check_out_def Let_def
          split: bool.splits)
qed

lemma cancel_reservation_state:
  "snd (cancel_reservation rid s) = s \<or>
   (\<exists>res. reservations s rid = Some res \<and> Reservation.status res = CONFIRMED \<and>
      (Room.status (room_objs s (room res)) \<noteq> OCCUPIED \<and>
       snd (cancel_reservation rid s) =
         s\<lparr>reservations := (reservations s)(rid \<mapsto> res\<lparr>Reservation.status := CANCELLED\<rparr>)\<rparr> \<or>
       Room.status (room_objs s (room res)) = OCCUPIED \<and>
       snd (cancel_reservation rid s) =
         s\<lparr>room_objs :=
             (room_objs s)(room res := (room_objs s (room res))\<lparr>Room.status := AVAILABLE\<rparr>),
           reservations := (reservations s)(rid := None)\<rparr>))"
proof (cases "reservations s rid")
  case None
  then show ?thesis by (simp add: cancel_reservation_def)
next
  case (Some res)
  then show ?thesis
    by (cases "Reservation.status res = CONFIRMED";
        cases "Room.status (room_objs s (room res)) = OCCUPIED")
       (simp_all add: cancel_reservation_def Reservation_cancel_def Room_check_out_def Let_def
          map_upd_triv)
qed

text \<open>
  Cancelling a confirmed reservation succeeds when its room is occupied, and raises,
  with the reservation marked cancelled but still stored, when it is not.
\<close>

lemma cancel_reservation_occupied:
  assumes "reservations s rid = Some res" "Reservation.status res = CONFIRMED"
    "Room.status (room_objs s (room res)) = OCCUPIED"
  shows "cancel_reservation rid s =
    (Inr (), s\<lparr>room_objs :=
               (room_objs s)(room res := (room_objs s (room res))\<lparr>Room.status := AVAILABLE\<rparr>),
             reservations := (reservations s)(rid := None)\<rparr>)"
  using assms
  by (simp add: cancel_reservation_def Reservation_cancel_def Room_check_out_def Let_def)

lemma cancel_reservation_not_occupied:
  assumes "reservations s rid = Some res" "Reservation.status res = CONFIRMED"
    "Room.status (room_objs s (room res)) \<noteq> OCCUPIED"
  shows "cancel_reservation rid s =
    (Inl (ValueError ''Room is not occupied.''),
     s\<lparr>reservations := (reservations s)(rid \<mapsto> res\<lparr>Reservation.status := CANCELLED\<rparr>)\<rparr>)"
  using assms
  by (simp add: cancel_reservation_def Reservation_cancel_def Room_check_out_def Let_def)

text \<open>Checking out a confirmed reservation: the payment is asked first, then the room.\<close>

lemma check_out_confirmed:
  assumes "reservations s rid = Some res" "Reservation.status res = CONFIRMED"
  shows "check_out rid p s =
    (if outcome p (calls p) (amount_due s res) then
       (if Room.status (room_objs s (room res)) = OCCUPIED then
          (Inr (), s\<lparr>room_objs :=
                     (room_objs s)(room res := (room_objs s (room res))\<lparr>Room.status := AVAILABLE\<rparr>),
                   reservations := (reservations s)(rid := None)\<rparr>,
           p\<lparr>calls := calls p @ [amount_due s res]\<rparr>)
        else (Inl (ValueError ''Room is not occupied.''), s,
              p\<lparr>calls := calls p @ [amount_due s res]\<rparr>))
     else (Inl (ValueError ''Payment failed.''), s, p\<lparr>calls := calls p @ [amount_due s res]\<rparr>))"
  using assms
  by (simp add: check_out_def process_payment_def Room_check_out_def Let_def)

section \<open>The invariant holds in every reachable state\<close>

lemma hotel_inv_initial: "initial s \<Longrightarrow> hotel_inv s"
  by (simp add: initial_def hotel_inv_def confirmed_in_def)

lemma hotel_inv_add_guest: "hotel_inv s \<Longrightarrow> hotel_inv (add_guest g s)"
  by (simp add: hotel_inv_def confirmed_in_def add_guest_def)

lemma hotel_inv_add_room: "hotel_inv s \<Longrightarrow> hotel_inv (add_room r s)"
  by (simp add: hotel_inv_def confirmed_in_def add_room_def)

text \<open>
  Booking: the room was available, so by the invariant no confirmed reservation
  referred to it, and the new one is the only one.
\<close>

lemma hotel_inv_book_room: "hotel_inv s \<Longrightarrow> hotel_inv (snd (book_room g r ci co u s))"
proof (cases "Room.status (room_objs s r) = AVAILABLE")
  case False
  assume "hotel_inv s"
  with False show ?thesis by (simp add: book_room_busy)
next
  case True
  assume i: "hotel_inv s"
  from i True have none: "\<And>rid. \<not> confirmed_in s rid r"
    by (auto simp: hotel_inv_def)
  show ?thesis
    using i none True unfolding book_room_available [OF True]
    by (simp add: hotel_inv_def confirmed_in_def Reservation_init_def split: option.splits)
qed

lemma hotel_inv_check_in: "hotel_inv s \<Longrightarrow> hotel_inv (snd (check_in rid s))"
proof -
  assume i: "hotel_inv s"
  obtain res s' where eq: "check_in rid s = (res, s')" by (cases "check_in rid s")
  show ?thesis
  proof (cases res)
    case (Inl e)
    with eq i show ?thesis by (auto dest: check_in_raises)
  next
    case (Inr u)
    with eq have "check_in rid s = (Inr (), s')" by simp
    from check_in_returns [OF this] obtain rv :: Reservation where
      s': "s' = s\<lparr>room_objs :=
                   (room_objs s)(room rv := (room_objs s (room rv))\<lparr>Room.status := OCCUPIED\<rparr>)\<rparr>"
      by blast
    from i show ?thesis unfolding eq s'
      by (simp add: hotel_inv_def confirmed_in_def)
  qed
qed

text \<open>
  Freeing a room and deleting its confirmed reservation: by the invariant that
  reservation was the only confirmed one of the room.
\<close>

lemma hotel_inv_remove:
  assumes i: "hotel_inv s"
    and res: "reservations s rid = Some res" "Reservation.status res = CONFIRMED"
  shows "hotel_inv
    (s\<lparr>room_objs :=
         (room_objs s)(room res := (room_objs s (room res))\<lparr>Room.status := AVAILABLE\<rparr>),
       reservations := (reservations s)(rid := None)\<rparr>)"
    (is "hotel_inv ?s'")
proof -
  from res have "confirmed_in s rid (room res)" by (simp add: confirmed_in_def)
  with i have only: "\<And>rid'. confirmed_in s rid' (room res) \<Longrightarrow> rid' = rid"
    unfolding hotel_inv_def by blast
  have keep: "\<And>rid' r. confirmed_in ?s' rid' r \<Longrightarrow> confirmed_in s rid' r \<and> rid' \<noteq> rid"
    by (simp add: confirmed_in_def split: if_splits)
  show ?thesis unfolding hotel_inv_def
  proof (intro conjI allI impI)
    fix rid' r assume "confirmed_in ?s' rid' r"
    from keep [OF this] have a: "confirmed_in s rid' r" and b: "rid' \<noteq> rid" by simp_all
    from a b only have "r \<noteq> room res" by blast
    moreover from i a have "Room.status (room_objs s r) \<noteq> AVAILABLE"
      unfolding hotel_inv_def by blast
    ultimately show "Room.status (room_objs ?s' r) \<noteq> AVAILABLE" by simp
  next
    fix rid1 rid2 r
    assume "confirmed_in ?s' rid1 r \<and> confirmed_in ?s' rid2 r"
    then have "confirmed_in s rid1 r" "confirmed_in s rid2 r" using keep by blast+
    with i show "rid1 = rid2" unfolding hotel_inv_def by blast
  qed
qed

lemma hotel_inv_mark_cancelled:
  assumes i: "hotel_inv s" and res: "reservations s rid = Some res"
  shows "hotel_inv
    (s\<lparr>reservations := (reservations s)(rid \<mapsto> res\<lparr>Reservation.status := CANCELLED\<rparr>)\<rparr>)"
    (is "hotel_inv ?s'")
proof -
  have keep: "\<And>rid' r. confirmed_in ?s' rid' r \<Longrightarrow> confirmed_in s rid' r"
    by (simp add: confirmed_in_def split: if_splits)
  have objs: "room_objs ?s' = room_objs s" by simp
  from i show ?thesis unfolding hotel_inv_def objs
    by (blast dest: keep)
qed

lemma hotel_inv_check_out: "hotel_inv s \<Longrightarrow> hotel_inv (fst (snd (check_out rid p s)))"
  using check_out_state [of rid p s]
  by (auto simp: hotel_inv_remove)

lemma hotel_inv_cancel_reservation:
  "hotel_inv s \<Longrightarrow> hotel_inv (snd (cancel_reservation rid s))"
  using cancel_reservation_state [of rid s]
  by (auto simp: hotel_inv_remove hotel_inv_mark_cancelled)

lemma hotel_inv_step: "hotel_inv s \<Longrightarrow> hotel_inv (step op s)"
  by (cases op)
     (simp_all add: hotel_inv_add_guest hotel_inv_add_room hotel_inv_book_room
        hotel_inv_check_in hotel_inv_check_out hotel_inv_cancel_reservation)

lemma reachable_hotel_inv: "reachable s \<Longrightarrow> hotel_inv s"
  by (induction rule: reachable.induct) (simp_all add: hotel_inv_initial hotel_inv_step)

section \<open>The example hotel\<close>

lemma initial_hotel0: "initial hotel0"
  by (simp add: initial_def hotel0_def HotelManagementSystem_new_def demo_rooms_def
      Room_init_def)

lemma demo_id: "generate_reservation_id demo_uuid = ''RES4F7A1C2E''"
  by (simp add: generate_reservation_id_def demo_uuid_def upper_hex_def)

lemma hotel_booked_eq:
  "hotel_booked =
     hotel0\<lparr>room_objs := demo_rooms(0 := (demo_rooms 0)\<lparr>Room.status := BOOKED\<rparr>),
       reservations := [''RES4F7A1C2E'' \<mapsto> Reservation_init ''RES4F7A1C2E'' alice 0 10 12]\<rparr>"
  by (simp add: hotel_booked_def book_room_def Room_book_def demo_id hotel0_def Let_def
      HotelManagementSystem_new_def demo_rooms_def Room_init_def)

lemma hotel_occupied_eq:
  "hotel_occupied =
     hotel0\<lparr>room_objs := demo_rooms(0 := (demo_rooms 0)\<lparr>Room.status := OCCUPIED\<rparr>),
       reservations := [''RES4F7A1C2E'' \<mapsto> Reservation_init ''RES4F7A1C2E'' alice 0 10 12]\<rparr>"
  by (simp add: hotel_occupied_def hotel_booked_eq check_in_def Room_check_in_def hotel0_def
      HotelManagementSystem_new_def demo_rooms_def Room_init_def Reservation_init_def)

lemma reachable_hotel0: "reachable hotel0"
  by (rule reach_initial) (rule initial_hotel0)

lemma reachable_hotel_booked: "reachable hotel_booked"
  unfolding hotel_booked_def by (rule reach_step) (rule reachable_hotel0)

lemma reachable_hotel_occupied: "reachable hotel_occupied"
  unfolding hotel_occupied_def by (rule reach_step) (rule reachable_hotel_booked)

lemma booked_entry:
  "reservations hotel_booked ''RES4F7A1C2E'' =
     Some (Reservation_init ''RES4F7A1C2E'' alice 0 10 12)"
  by (simp add: hotel_booked_eq)

lemma booked_room: "room_objs hotel_booked 0 = (demo_rooms 0)\<lparr>Room.status := BOOKED\<rparr>"
  by (simp add: hotel_booked_eq)

lemma occupied_entry:
  "reservations hotel_occupied ''RES4F7A1C2E'' =
     Some (Reservation_init ''RES4F7A1C2E'' alice 0 10 12)"
  by (simp add: hotel_occupied_eq)

lemma occupied_room: "room_objs hotel_occupied 0 = (demo_rooms 0)\<lparr>Room.status := OCCUPIED\<rparr>"
  by (simp add: hotel_occupied_eq)

lemma confirmed_for_booked: "confirmed_for hotel_booked 0 = {''RES4F7A1C2E''}"
  by (auto simp: confirmed_for_def confirmed_in_def hotel_booked_eq Reservation_init_def
      hotel0_def HotelManagementSystem_new_def split: if_splits option.splits)

section \<open>The claims\<close>

subsection \<open>C1: book, then cancel\<close>

text \<open>
  Claim C1. After a successful book of an available room, cancel on the returned
  identity should succeed, return the room to \<^verbatim>\<open>AVAILABLE\<close> and remove the
  reservation, whether or not a check-in came in between. Without a check-in the code
  does otherwise: in the example hotel, \<^verbatim>\<open>book_room\<close> returns the reservation
  \<^verbatim>\<open>RES4F7A1C2E\<close> of room 0, and \<^verbatim>\<open>cancel_reservation\<close> of it raises, leaves the
  room \<^verbatim>\<open>BOOKED\<close> and leaves the reservation in the dictionary, cancelled. (With a
  check-in in between the cancel succeeds: \<open>cancel_reservation_occupied\<close>.)
\<close>

theorem cancel_after_book_raises:
  "fst (book_room alice 0 10 12 demo_uuid hotel0) =
     Inr (Some (Reservation_init ''RES4F7A1C2E'' alice 0 10 12)) \<and>
   hotel_booked = snd (book_room alice 0 10 12 demo_uuid hotel0) \<and>
   fst (cancel_reservation ''RES4F7A1C2E'' hotel_booked) =
     Inl (ValueError ''Room is not occupied.'') \<and>
   Room.status (room_objs (snd (cancel_reservation ''RES4F7A1C2E'' hotel_booked)) 0) = BOOKED \<and>
   map_option Reservation.status
     (reservations (snd (cancel_reservation ''RES4F7A1C2E'' hotel_booked)) ''RES4F7A1C2E'') =
     Some CANCELLED"
proof -
  have av: "Room.status (room_objs hotel0 0) = AVAILABLE"
    by (simp add: hotel0_def HotelManagementSystem_new_def demo_rooms_def Room_init_def)
  have a: "Reservation.status (Reservation_init ''RES4F7A1C2E'' alice 0 10 12) = CONFIRMED"
    by (simp add: Reservation_init_def)
  have r: "room (Reservation_init ''RES4F7A1C2E'' alice 0 10 12) = 0"
    by (simp add: Reservation_init_def)
  have b: "Room.status (room_objs hotel_booked
      (room (Reservation_init ''RES4F7A1C2E'' alice 0 10 12))) \<noteq> OCCUPIED"
    by (simp add: r booked_room)
  have c: "Room.status (room_objs hotel_booked 0) = BOOKED" by (simp add: booked_room)
  have cc: "cancel_reservation ''RES4F7A1C2E'' hotel_booked =
      (Inl (ValueError ''Room is not occupied.''),
       hotel_booked\<lparr>reservations := (reservations hotel_booked)(''RES4F7A1C2E'' \<mapsto>
         (Reservation_init ''RES4F7A1C2E'' alice 0 10 12)\<lparr>Reservation.status := CANCELLED\<rparr>)\<rparr>)"
    by (rule cancel_reservation_not_occupied [OF booked_entry a b])
  have c1: "fst (book_room alice 0 10 12 demo_uuid hotel0) =
      Inr (Some (Reservation_init ''RES4F7A1C2E'' alice 0 10 12))"
    by (simp add: book_room_available [OF av] demo_id)
  have c2: "hotel_booked = snd (book_room alice 0 10 12 demo_uuid hotel0)"
    by (simp add: hotel_booked_def)
  have c3: "Room.status (room_objs (snd (cancel_reservation ''RES4F7A1C2E'' hotel_booked)) 0) =
      BOOKED"
    by (simp add: cc c)
  have c4: "map_option Reservation.status
      (reservations (snd (cancel_reservation ''RES4F7A1C2E'' hotel_booked)) ''RES4F7A1C2E'') =
      Some CANCELLED"
    by (simp add: cc)
  have c5: "fst (cancel_reservation ''RES4F7A1C2E'' hotel_booked) =
      Inl (ValueError ''Room is not occupied.'')"
    by (simp add: cc)
  from c1 c2 c3 c4 c5 show ?thesis by blast
qed

subsection \<open>C2: a failed payment at check-out\<close>

text \<open>
  Claim C2, as stated, fails: a check-out whose payment fails changes nothing, but the
  next check-out of the same identity with a payment that succeeds need not return. In
  the example the room was booked and never checked in: the declined check-out raises
  \<^verbatim>\<open>Payment failed.\<close> and changes nothing, and the following check-out with a credit
  card raises \<^verbatim>\<open>Room is not occupied.\<close>
\<close>

theorem check_out_retry_not_checked_in_counterexample:
  "reachable hotel_booked \<and>
   map_option Reservation.status (reservations hotel_booked ''RES4F7A1C2E'') = Some CONFIRMED \<and>
   check_out ''RES4F7A1C2E'' DecliningPayment hotel_booked =
     (Inl (ValueError ''Payment failed.''), hotel_booked, DecliningPayment\<lparr>calls := [200]\<rparr>) \<and>
   fst (check_out ''RES4F7A1C2E'' CreditCardPayment hotel_booked) =
     Inl (ValueError ''Room is not occupied.'')"
proof -
  let ?res = "Reservation_init ''RES4F7A1C2E'' alice 0 10 12"
  have a: "Reservation.status ?res = CONFIRMED" by (simp add: Reservation_init_def)
  have r: "room ?res = 0" by (simp add: Reservation_init_def)
  have d: "amount_due hotel_booked ?res = 200"
    by (simp add: r booked_room demo_rooms_def Room_init_def Reservation_init_def)
  have st: "Room.status (room_objs hotel_booked (room ?res)) \<noteq> OCCUPIED"
    by (simp add: r booked_room)
  have c1: "map_option Reservation.status (reservations hotel_booked ''RES4F7A1C2E'') =
      Some CONFIRMED"
    by (simp add: booked_entry a)
  have c2: "check_out ''RES4F7A1C2E'' DecliningPayment hotel_booked =
      (Inl (ValueError ''Payment failed.''), hotel_booked, DecliningPayment\<lparr>calls := [200]\<rparr>)"
    unfolding check_out_confirmed [OF booked_entry a, unfolded d]
    by (simp add: DecliningPayment_def)
  have c3: "fst (check_out ''RES4F7A1C2E'' CreditCardPayment hotel_booked) =
      Inl (ValueError ''Room is not occupied.'')"
    unfolding check_out_confirmed [OF booked_entry a, unfolded d]
    using st by (simp add: CreditCardPayment_def)
  from reachable_hotel_booked c1 c2 c3 show ?thesis by blast
qed

text \<open>
  Claim C2, amended. In every state (reachable or not), a check-out of a stored
  confirmed reservation whose payment fails raises \<^verbatim>\<open>Payment failed.\<close> and leaves
  the whole state as it was (room statuses, reservation statuses, the dictionary); the
  payment has been asked once. If moreover the room is \<^verbatim>\<open>OCCUPIED\<close>, a following
  check-out of the same identity with a payment that succeeds returns, frees the room
  and deletes the reservation.
\<close>

theorem check_out_payment_failure_then_retry:
  assumes "reservations s rid = Some res"
    and "Reservation.status res = CONFIRMED"
    and "\<not> outcome p (calls p) (amount_due s res)"
  shows "check_out rid p s =
      (Inl (ValueError ''Payment failed.''), s, p\<lparr>calls := calls p @ [amount_due s res]\<rparr>) \<and>
    (Room.status (room_objs s (room res)) = OCCUPIED \<and>
     outcome p2 (calls p2) (amount_due s res) \<longrightarrow>
       check_out rid p2 (fst (snd (check_out rid p s))) =
         (Inr (),
          s\<lparr>room_objs :=
              (room_objs s)(room res := (room_objs s (room res))\<lparr>Room.status := AVAILABLE\<rparr>),
            reservations := (reservations s)(rid := None)\<rparr>,
          p2\<lparr>calls := calls p2 @ [amount_due s res]\<rparr>))"
proof -
  have first: "check_out rid p s =
      (Inl (ValueError ''Payment failed.''), s, p\<lparr>calls := calls p @ [amount_due s res]\<rparr>)"
    using assms(3) unfolding check_out_confirmed [OF assms(1,2)] by simp
  have same: "fst (snd (check_out rid p s)) = s"
    unfolding first by simp
  show ?thesis
    unfolding same
    using first by (simp add: check_out_confirmed [OF assms(1,2)])
qed

theorem check_out_payment_failure_then_retry_witness:
  "reachable hotel_occupied \<and>
   reservations hotel_occupied ''RES4F7A1C2E'' =
     Some (Reservation_init ''RES4F7A1C2E'' alice 0 10 12) \<and>
   check_out ''RES4F7A1C2E'' DecliningPayment hotel_occupied =
     (Inl (ValueError ''Payment failed.''), hotel_occupied, DecliningPayment\<lparr>calls := [200]\<rparr>) \<and>
   check_out ''RES4F7A1C2E'' CreditCardPayment
       (fst (snd (check_out ''RES4F7A1C2E'' DecliningPayment hotel_occupied))) =
     (Inr (),
      hotel_occupied\<lparr>room_objs :=
          (room_objs hotel_occupied)(0 := (room_objs hotel_occupied 0)\<lparr>Room.status := AVAILABLE\<rparr>),
        reservations := (reservations hotel_occupied)(''RES4F7A1C2E'' := None)\<rparr>,
      CreditCardPayment\<lparr>calls := [200]\<rparr>)"
proof -
  let ?res = "Reservation_init ''RES4F7A1C2E'' alice 0 10 12"
  have a: "Reservation.status ?res = CONFIRMED" by (simp add: Reservation_init_def)
  have r: "room ?res = 0" by (simp add: Reservation_init_def)
  have d: "price (room_objs hotel_occupied 0) *
      real_of_int (check_out_date ?res - check_in_date ?res) = 200"
    by (simp add: occupied_room demo_rooms_def Room_init_def Reservation_init_def)
  have f: "\<not> outcome DecliningPayment (calls DecliningPayment) (amount_due hotel_occupied ?res)"
    by (simp add: DecliningPayment_def)
  have st: "Room.status (room_objs hotel_occupied 0) = OCCUPIED"
    by (simp add: occupied_room)
  have ok: "outcome CreditCardPayment (calls CreditCardPayment) 200"
    by (simp add: CreditCardPayment_def)
  have e1: "calls DecliningPayment = []" by (simp add: DecliningPayment_def)
  have e2: "calls CreditCardPayment = []" by (simp add: CreditCardPayment_def)
  note th = check_out_payment_failure_then_retry
      [OF occupied_entry a f, of CreditCardPayment, unfolded r d]
  from th have p1: "check_out ''RES4F7A1C2E'' DecliningPayment hotel_occupied =
      (Inl (ValueError ''Payment failed.''), hotel_occupied, DecliningPayment\<lparr>calls := [200]\<rparr>)"
    by (simp add: e1)
  from th [THEN conjunct2] st ok
  have p2: "check_out ''RES4F7A1C2E'' CreditCardPayment
       (fst (snd (check_out ''RES4F7A1C2E'' DecliningPayment hotel_occupied))) =
     (Inr (),
      hotel_occupied\<lparr>room_objs :=
          (room_objs hotel_occupied)(0 := (room_objs hotel_occupied 0)\<lparr>Room.status := AVAILABLE\<rparr>),
        reservations := (reservations hotel_occupied)(''RES4F7A1C2E'' := None)\<rparr>,
      CreditCardPayment\<lparr>calls := [200]\<rparr>)"
    by (simp add: e2)
  from reachable_hotel_occupied occupied_entry p1 p2 show ?thesis by blast
qed

subsection \<open>C3: room status and confirmed reservation\<close>

text \<open>
  Claim C3. In every reachable state a room without a confirmed reservation should be
  \<^verbatim>\<open>AVAILABLE\<close>. The code reaches a state where this fails: after the booking of
  room 0 and the cancel that raises (see C1), the room is \<^verbatim>\<open>BOOKED\<close> and no
  confirmed reservation refers to it.
\<close>

theorem booked_room_without_confirmed_reservation:
  "reachable hotel_cancelled_early \<and>
   Room.status (room_objs hotel_cancelled_early 0) = BOOKED \<and>
   confirmed_for hotel_cancelled_early 0 = {}"
proof -
  have a: "Reservation.status (Reservation_init ''RES4F7A1C2E'' alice 0 10 12) = CONFIRMED"
    by (simp add: Reservation_init_def)
  have r: "room (Reservation_init ''RES4F7A1C2E'' alice 0 10 12) = 0"
    by (simp add: Reservation_init_def)
  have b: "Room.status (room_objs hotel_booked
      (room (Reservation_init ''RES4F7A1C2E'' alice 0 10 12))) \<noteq> OCCUPIED"
    by (simp add: r booked_room)
  have eq: "hotel_cancelled_early =
      hotel_booked\<lparr>reservations := (reservations hotel_booked)(''RES4F7A1C2E'' \<mapsto>
        (Reservation_init ''RES4F7A1C2E'' alice 0 10 12)\<lparr>Reservation.status := CANCELLED\<rparr>)\<rparr>"
    by (simp add: hotel_cancelled_early_def cancel_reservation_not_occupied [OF booked_entry a b])
  have reach: "reachable hotel_cancelled_early"
    unfolding hotel_cancelled_early_def by (rule reach_step) (rule reachable_hotel_booked)
  have st: "Room.status (room_objs hotel_cancelled_early 0) = BOOKED"
    by (simp add: eq booked_room)
  have none: "confirmed_for hotel_cancelled_early 0 = {}"
    by (auto simp: confirmed_for_def confirmed_in_def eq hotel_booked_eq hotel0_def
        HotelManagementSystem_new_def split: if_splits option.splits)
  from reach st none show ?thesis by simp
qed

subsection \<open>C4: at most one confirmed reservation for a room\<close>

text \<open>
  Claim C4. In every state reachable by any sequence of book, check-in, check-out and
  cancel calls (and of registrations of guests and rooms), each room is referenced by at
  most one reservation of the \<^verbatim>\<open>reservations\<close> dictionary whose status is
  \<^verbatim>\<open>CONFIRMED\<close>: the set of the identities of such reservations is finite and has
  at most one element. A reservation that a successful check-out has deleted from the
  dictionary keeps the status \<^verbatim>\<open>CONFIRMED\<close>, and is not counted: the system no
  longer holds it.
\<close>

theorem confirmed_reservation_unique:
  assumes "reachable s"
  shows "finite (confirmed_for s r) \<and> card (confirmed_for s r) \<le> 1"
proof -
  from assms have "hotel_inv s" by (rule reachable_hotel_inv)
  then have u: "\<And>a b. a \<in> confirmed_for s r \<Longrightarrow> b \<in> confirmed_for s r \<Longrightarrow> a = b"
    unfolding hotel_inv_def confirmed_for_def by blast
  show ?thesis
  proof (cases "confirmed_for s r = {}")
    case True
    then show ?thesis by simp
  next
    case False
    then obtain a where "a \<in> confirmed_for s r" by blast
    with u have "confirmed_for s r = {a}" by blast
    then show ?thesis by simp
  qed
qed

theorem confirmed_reservation_unique_witness:
  "reachable hotel_booked \<and> confirmed_for hotel_booked 0 = {''RES4F7A1C2E''} \<and>
   finite (confirmed_for hotel_booked 0) \<and> card (confirmed_for hotel_booked 0) \<le> 1"
  using confirmed_reservation_unique [OF reachable_hotel_booked, of 0]
    reachable_hotel_booked confirmed_for_booked
  by simp

subsection \<open>C5: the release transition of a room\<close>

text \<open>
  Claim C5, as stated, fails: \<^verbatim>\<open>Room.check_out\<close> does not succeed from
  \<^verbatim>\<open>BOOKED\<close>. A booked room raises \<^verbatim>\<open>Room is not occupied.\<close>
\<close>

theorem Room_check_out_booked_counterexample:
  "Room.status ((Room_init ''101'' SINGLE 100)\<lparr>Room.status := BOOKED\<rparr>) = BOOKED \<and>
   Room_check_out ((Room_init ''101'' SINGLE 100)\<lparr>Room.status := BOOKED\<rparr>) =
     Inl (ValueError ''Room is not occupied.'')"
  by (simp add: Room_check_out_def)

text \<open>
  Claim C5, amended. For every room, \<^verbatim>\<open>check_out\<close> succeeds and moves the room to
  \<^verbatim>\<open>AVAILABLE\<close> when its status is \<^verbatim>\<open>OCCUPIED\<close>, and fails with the error
  \<^verbatim>\<open>Room is not occupied.\<close> when its status is \<^verbatim>\<open>AVAILABLE\<close> or
  \<^verbatim>\<open>BOOKED\<close>.
\<close>

theorem Room_check_out_only_from_occupied:
  "(Room.status r = OCCUPIED \<longrightarrow>
      Room_check_out r = Inr (r\<lparr>Room.status := AVAILABLE\<rparr>)) \<and>
   (Room.status r = AVAILABLE \<or> Room.status r = BOOKED \<longrightarrow>
      Room_check_out r = Inl (ValueError ''Room is not occupied.''))"
  by (auto simp: Room_check_out_def)

theorem Room_check_out_only_from_occupied_witness:
  "Room_check_out ((Room_init ''101'' SINGLE 100)\<lparr>Room.status := OCCUPIED\<rparr>) =
     Inr ((Room_init ''101'' SINGLE 100)\<lparr>Room.status := AVAILABLE\<rparr>) \<and>
   Room_check_out (Room_init ''101'' SINGLE 100) = Inl (ValueError ''Room is not occupied.'')"
  using Room_check_out_only_from_occupied [of "(Room_init ''101'' SINGLE 100)\<lparr>Room.status := OCCUPIED\<rparr>"]
    Room_check_out_only_from_occupied [of "Room_init ''101'' SINGLE 100"]
  by (simp add: Room_init_def)

subsection \<open>C6: the dates of a reservation\<close>

text \<open>
  Claim C6, as stated, fails: no check of the dates exists. Booking room 0 of the
  example hotel from day 12 to day 10 returns a reservation with these dates and stores
  it.
\<close>

theorem reservation_end_before_start_counterexample:
  "fst (book_room alice 0 12 10 demo_uuid hotel0) =
     Inr (Some (Reservation_init ''RES4F7A1C2E'' alice 0 12 10)) \<and>
   reservations (snd (book_room alice 0 12 10 demo_uuid hotel0)) ''RES4F7A1C2E'' =
     Some (Reservation_init ''RES4F7A1C2E'' alice 0 12 10) \<and>
   check_in_date (Reservation_init ''RES4F7A1C2E'' alice 0 12 10) = 12 \<and>
   check_out_date (Reservation_init ''RES4F7A1C2E'' alice 0 12 10) = 10"
proof -
  have av: "Room.status (room_objs hotel0 0) = AVAILABLE"
    by (simp add: hotel0_def HotelManagementSystem_new_def demo_rooms_def Room_init_def)
  show ?thesis
    by (simp add: book_room_available [OF av] demo_id) (simp add: Reservation_init_def)
qed

text \<open>
  Claim C6, amended. For every guest, room and pair of dates, in whatever order,
  constructing a reservation is accepted: booking an available room returns and stores
  a reservation that is \<^verbatim>\<open>CONFIRMED\<close> and holds the two dates as they were given.
\<close>

theorem book_room_accepts_any_dates:
  assumes "Room.status (room_objs s r) = AVAILABLE"
  shows "fst (book_room g r ci co u s) =
      Inr (Some (Reservation_init (generate_reservation_id u) g r ci co)) \<and>
    reservations (snd (book_room g r ci co u s)) (generate_reservation_id u) =
      Some (Reservation_init (generate_reservation_id u) g r ci co) \<and>
    Reservation.status (Reservation_init (generate_reservation_id u) g r ci co) = CONFIRMED \<and>
    check_in_date (Reservation_init (generate_reservation_id u) g r ci co) = ci \<and>
    check_out_date (Reservation_init (generate_reservation_id u) g r ci co) = co"
  by (simp add: book_room_available [OF assms]) (simp add: Reservation_init_def)

theorem book_room_accepts_any_dates_witness:
  "Room.status (room_objs hotel0 0) = AVAILABLE \<and>
   fst (book_room alice 0 10 10 demo_uuid hotel0) =
     Inr (Some (Reservation_init ''RES4F7A1C2E'' alice 0 10 10)) \<and>
   reservations (snd (book_room alice 0 10 10 demo_uuid hotel0)) ''RES4F7A1C2E'' =
     Some (Reservation_init ''RES4F7A1C2E'' alice 0 10 10) \<and>
   check_in_date (Reservation_init ''RES4F7A1C2E'' alice 0 10 10) = 10 \<and>
   check_out_date (Reservation_init ''RES4F7A1C2E'' alice 0 10 10) = 10"
proof -
  have av: "Room.status (room_objs hotel0 0) = AVAILABLE"
    by (simp add: hotel0_def HotelManagementSystem_new_def demo_rooms_def Room_init_def)
  from book_room_accepts_any_dates [OF av, of alice 10 10 demo_uuid] av
  show ?thesis by (simp add: demo_id)
qed

subsection \<open>C7: failures are reported to the caller\<close>

text \<open>
  Claim C7, as stated, fails: \<^verbatim>\<open>cancel_reservation\<close> of an identity that is not in
  the dictionary returns, having done nothing, and reports no failure.
\<close>

theorem cancel_unknown_counterexample:
  "reservations hotel0 ''RES00000000'' = None \<and>
   cancel_reservation ''RES00000000'' hotel0 = (Inr (), hotel0)"
  by (simp add: cancel_reservation_def hotel0_def HotelManagementSystem_new_def)

text \<open>
  Claim C7, amended. In every state, cancel of an identity that is not stored returns
  with no effect and reports nothing. Every other failure is reported to the caller:
  check-in returns only for a stored confirmed reservation whose room is
  \<^verbatim>\<open>BOOKED\<close>, check-out only for a stored confirmed reservation whose payment
  succeeded and whose room is \<^verbatim>\<open>OCCUPIED\<close>, cancel of a stored reservation only
  when it is confirmed and its room is \<^verbatim>\<open>OCCUPIED\<close>, and in all other cases they
  raise an error; book returns \<^verbatim>\<open>None\<close> exactly when the room is not
  \<^verbatim>\<open>AVAILABLE\<close>.
\<close>

theorem failures_reported_except_unknown_cancel:
  "(reservations s rid = None \<longrightarrow> cancel_reservation rid s = (Inr (), s)) \<and>
   (fst (check_in rid s) = Inr () \<longleftrightarrow>
      (case reservations s rid of
         None \<Rightarrow> False
       | Some res \<Rightarrow> Reservation.status res = CONFIRMED \<and>
           Room.status (room_objs s (room res)) = BOOKED)) \<and>
   (fst (check_out rid p s) = Inr () \<longleftrightarrow>
      (case reservations s rid of
         None \<Rightarrow> False
       | Some res \<Rightarrow> Reservation.status res = CONFIRMED \<and>
           outcome p (calls p) (amount_due s res) \<and>
           Room.status (room_objs s (room res)) = OCCUPIED)) \<and>
   (fst (cancel_reservation rid s) = Inr () \<longleftrightarrow>
      (case reservations s rid of
         None \<Rightarrow> True
       | Some res \<Rightarrow> Reservation.status res = CONFIRMED \<and>
           Room.status (room_objs s (room res)) = OCCUPIED)) \<and>
   (fst (book_room g r ci co u s) = Inr None \<longleftrightarrow> Room.status (room_objs s r) \<noteq> AVAILABLE)"
proof (intro conjI)
  show "reservations s rid = None \<longrightarrow> cancel_reservation rid s = (Inr (), s)"
    by (simp add: cancel_reservation_def)
next
  show "fst (check_in rid s) = Inr () \<longleftrightarrow>
      (case reservations s rid of
         None \<Rightarrow> False
       | Some res \<Rightarrow> Reservation.status res = CONFIRMED \<and>
           Room.status (room_objs s (room res)) = BOOKED)"
    by (simp add: check_in_def Room_check_in_def split: option.splits)
next
  show "fst (check_out rid p s) = Inr () \<longleftrightarrow>
      (case reservations s rid of
         None \<Rightarrow> False
       | Some res \<Rightarrow> Reservation.status res = CONFIRMED \<and>
           outcome p (calls p) (amount_due s res) \<and>
           Room.status (room_objs s (room res)) = OCCUPIED)"
  proof (cases "reservations s rid")
    case None
    then show ?thesis by (simp add: check_out_def)
  next
    case (Some res)
    show ?thesis
    proof (cases "Reservation.status res = CONFIRMED")
      case True
      show ?thesis unfolding check_out_confirmed [OF Some True] using Some True by simp
    next
      case False
      with Some show ?thesis by (simp add: check_out_def)
    qed
  qed
next
  show "fst (cancel_reservation rid s) = Inr () \<longleftrightarrow>
      (case reservations s rid of
         None \<Rightarrow> True
       | Some res \<Rightarrow> Reservation.status res = CONFIRMED \<and>
           Room.status (room_objs s (room res)) = OCCUPIED)"
    by (simp add: cancel_reservation_def Reservation_cancel_def Room_check_out_def Let_def
        split: option.splits)
next
  show "fst (book_room g r ci co u s) = Inr None \<longleftrightarrow> Room.status (room_objs s r) \<noteq> AVAILABLE"
    by (cases "Room.status (room_objs s r) = AVAILABLE")
       (simp_all add: book_room_available book_room_busy)
qed

theorem failures_reported_except_unknown_cancel_witness:
  "reachable hotel_booked \<and>
   reservations hotel_booked ''RES00000000'' = None \<and>
   cancel_reservation ''RES00000000'' hotel_booked = (Inr (), hotel_booked) \<and>
   fst (check_in ''RES00000000'' hotel_booked) \<noteq> Inr () \<and>
   fst (check_out ''RES00000000'' CreditCardPayment hotel_booked) \<noteq> Inr () \<and>
   fst (book_room alice 0 20 22 demo_uuid hotel_booked) = Inr None"
proof -
  have n: "reservations hotel_booked ''RES00000000'' = None"
    by (simp add: hotel_booked_eq hotel0_def HotelManagementSystem_new_def)
  have st: "Room.status (room_objs hotel_booked 0) \<noteq> AVAILABLE"
    by (simp add: booked_room)
  from failures_reported_except_unknown_cancel
      [where s = hotel_booked and rid = "''RES00000000''" and p = CreditCardPayment
        and g = alice and r = 0 and ci = 20 and co = 22 and u = demo_uuid]
    n st reachable_hotel_booked
  show ?thesis by simp
qed

subsection \<open>C9: cancelling a booking before check-in\<close>

text \<open>
  Claim C9. In every state (reachable or not) that stores a confirmed reservation whose
  room is \<^verbatim>\<open>BOOKED\<close>, cancel of that reservation raises an error and leaves a
  partial change: afterwards the reservation is \<^verbatim>\<open>CANCELLED\<close>, it is still in the
  dictionary, and the room is still \<^verbatim>\<open>BOOKED\<close>. Nothing else has changed.
\<close>

theorem cancel_booked_partial:
  assumes "reservations s rid = Some res"
    and "Reservation.status res = CONFIRMED"
    and "Room.status (room_objs s (room res)) = BOOKED"
  shows "fst (cancel_reservation rid s) = Inl (ValueError ''Room is not occupied.'') \<and>
    reservations (snd (cancel_reservation rid s)) rid =
      Some (res\<lparr>Reservation.status := CANCELLED\<rparr>) \<and>
    Room.status (room_objs (snd (cancel_reservation rid s)) (room res)) = BOOKED \<and>
    snd (cancel_reservation rid s) =
      s\<lparr>reservations := (reservations s)(rid \<mapsto> res\<lparr>Reservation.status := CANCELLED\<rparr>)\<rparr>"
proof -
  from assms(3) have "Room.status (room_objs s (room res)) \<noteq> OCCUPIED" by simp
  from cancel_reservation_not_occupied [OF assms(1,2) this] assms(3)
  show ?thesis by simp
qed

theorem cancel_booked_partial_witness:
  "reachable hotel_booked \<and>
   reservations hotel_booked ''RES4F7A1C2E'' =
     Some (Reservation_init ''RES4F7A1C2E'' alice 0 10 12) \<and>
   Room.status (room_objs hotel_booked 0) = BOOKED \<and>
   fst (cancel_reservation ''RES4F7A1C2E'' hotel_booked) =
     Inl (ValueError ''Room is not occupied.'') \<and>
   reservations (snd (cancel_reservation ''RES4F7A1C2E'' hotel_booked)) ''RES4F7A1C2E'' =
     Some ((Reservation_init ''RES4F7A1C2E'' alice 0 10 12)\<lparr>Reservation.status := CANCELLED\<rparr>) \<and>
   Room.status (room_objs (snd (cancel_reservation ''RES4F7A1C2E'' hotel_booked)) 0) = BOOKED"
proof -
  have a: "Reservation.status (Reservation_init ''RES4F7A1C2E'' alice 0 10 12) = CONFIRMED"
    by (simp add: Reservation_init_def)
  have r: "room (Reservation_init ''RES4F7A1C2E'' alice 0 10 12) = 0"
    by (simp add: Reservation_init_def)
  have b: "Room.status (room_objs hotel_booked (room (Reservation_init ''RES4F7A1C2E'' alice 0 10 12))) = BOOKED"
    by (simp add: r booked_room)
  from cancel_booked_partial [OF booked_entry a b] reachable_hotel_booked booked_entry b
  show ?thesis by (simp add: r)
qed

subsection \<open>C10: checking out a booking that never checked in\<close>

text \<open>
  Claim C10. In every state (reachable or not) that stores a confirmed reservation whose
  room is \<^verbatim>\<open>BOOKED\<close>, check-out with a payment that succeeds calls
  \<^verbatim>\<open>process_payment\<close> with the amount due, which answers \<^verbatim>\<open>True\<close>, and then
  raises \<^verbatim>\<open>Room is not occupied.\<close>: the payment object has recorded the amount, and
  the state is unchanged, so the room is still \<^verbatim>\<open>BOOKED\<close> and the reservation still
  stored and \<^verbatim>\<open>CONFIRMED\<close>.
\<close>

theorem check_out_booked_takes_payment:
  assumes "reservations s rid = Some res"
    and "Reservation.status res = CONFIRMED"
    and "Room.status (room_objs s (room res)) = BOOKED"
    and "outcome p (calls p) (amount_due s res)"
  shows "process_payment p (amount_due s res) = (True, p\<lparr>calls := calls p @ [amount_due s res]\<rparr>) \<and>
    check_out rid p s =
      (Inl (ValueError ''Room is not occupied.''), s, p\<lparr>calls := calls p @ [amount_due s res]\<rparr>)"
  using assms by (simp add: check_out_confirmed process_payment_def)

theorem check_out_booked_takes_payment_witness:
  "reachable hotel_booked \<and>
   reservations hotel_booked ''RES4F7A1C2E'' =
     Some (Reservation_init ''RES4F7A1C2E'' alice 0 10 12) \<and>
   Room.status (room_objs hotel_booked 0) = BOOKED \<and>
   check_out ''RES4F7A1C2E'' CreditCardPayment hotel_booked =
     (Inl (ValueError ''Room is not occupied.''), hotel_booked, CreditCardPayment\<lparr>calls := [200]\<rparr>)"
proof -
  let ?res = "Reservation_init ''RES4F7A1C2E'' alice 0 10 12"
  have a: "Reservation.status ?res = CONFIRMED" by (simp add: Reservation_init_def)
  have r: "room ?res = 0" by (simp add: Reservation_init_def)
  have b: "Room.status (room_objs hotel_booked (room ?res)) = BOOKED"
    by (simp add: r booked_room)
  have c: "outcome CreditCardPayment (calls CreditCardPayment) (amount_due hotel_booked ?res)"
    by (simp add: CreditCardPayment_def)
  have d: "amount_due hotel_booked ?res = 200"
    by (simp add: r booked_room demo_rooms_def Room_init_def Reservation_init_def)
  have e: "calls CreditCardPayment = []" by (simp add: CreditCardPayment_def)
  from check_out_booked_takes_payment [OF booked_entry a b c, unfolded d]
    reachable_hotel_booked booked_entry b
  show ?thesis by (simp add: r e)
qed

end
